theory Spec2Isabelle
  imports Complex_Main "HOL-Library.AList" "HOL-Library.Sublist"
begin

section \<open>Strings and numbers of the source language\<close>

text \<open>
  A string of the program is a list of code units. The model covers strings whose code
  units are below 256 (Latin-1), which is what \<^typ>\<open>char\<close> holds; the pound sign
  of the cost texts is the code unit 0xA3. A number of the program that may be
  \<^verbatim>\<open>NaN\<close> is a \<^typ>\<open>rat option\<close>, with \<^term>\<open>None\<close> for \<^verbatim>\<open>NaN\<close>; every finite
  double is a rational, and rounding is not modelled.
\<close>

type_synonym number = "rat option"

definition isWhiteSpace :: "char \<Rightarrow> bool" where
  \<comment> \<open>the class \<^verbatim>\<open>\s\<close> of a regular expression, and what \<^verbatim>\<open>trim\<close> removes\<close>
  "isWhiteSpace c =
     (c = CHR 0x09 \<or> c = CHR 0x0A \<or> c = CHR 0x0B \<or> c = CHR 0x0C \<or> c = CHR 0x0D
      \<or> c = CHR 0x20 \<or> c = CHR 0xA0)"


definition isDigit :: "char \<Rightarrow> bool" where
  "isDigit c = (48 \<le> (of_char c :: int) \<and> (of_char c :: int) \<le> 57)"

definition isWordChar :: "char \<Rightarrow> bool" where
  \<comment> \<open>the class \<^verbatim>\<open>\w\<close>: letters, digits and the underscore\<close>
  "isWordChar c =
     (let n = (of_char c :: int)
      in (48 \<le> n \<and> n \<le> 57) \<or> (65 \<le> n \<and> n \<le> 90) \<or> n = 95 \<or> (97 \<le> n \<and> n \<le> 122))"

definition toLowerChar :: "char \<Rightarrow> char" where
  "toLowerChar c =
     (let n = (of_char c :: int)
      in if (65 \<le> n \<and> n \<le> 90) \<or> (192 \<le> n \<and> n \<le> 222 \<and> n \<noteq> 215)
         then char_of (n + 32) else c)"

definition toLowerCase :: "string \<Rightarrow> string" where
  "toLowerCase s = map toLowerChar s"

definition trim :: "string \<Rightarrow> string" where
  "trim s = rev (dropWhile isWhiteSpace (rev (dropWhile isWhiteSpace s)))"

definition startsWith :: "string \<Rightarrow> string \<Rightarrow> bool" where
  "startsWith s p = (take (length p) s = p)"

fun str_includes :: "string \<Rightarrow> string \<Rightarrow> bool" where
  "str_includes [] p = (p = [])"
| "str_includes (c # cs) p = (startsWith (c # cs) p \<or> str_includes cs p)"

function collapseWhitespace :: "string \<Rightarrow> string" where
  \<comment> \<open>\<^verbatim>\<open>replace(/\s+/g, ' ')\<close>: every maximal run of white space becomes one space\<close>
  "collapseWhitespace [] = []"
| "collapseWhitespace (c # cs) =
     (if isWhiteSpace c then CHR 0x20 # collapseWhitespace (dropWhile isWhiteSpace cs)
      else c # collapseWhitespace cs)"
  by pat_completeness auto
termination
  by (relation "measure length") (auto simp: less_Suc_eq_le length_dropWhile_le)

section \<open>Geocoding results and the geocoding cache\<close>

record Coordinates =
  lat :: number
  lng :: number

record GeocodingResult =
  coordinates :: Coordinates
  formattedAddress :: "string option"
  confidence :: "rat option"

text \<open>
  \<^verbatim>\<open>GeocodingCache\<close> has two fields: a \<^verbatim>\<open>Map\<close>, which iterates its keys in insertion
  order, and the capacity, which the constructor sets to 1000. The map is an association
  list, oldest entry first: \<^verbatim>\<open>Map.set\<close> on a key that is present replaces the value and
  keeps the position, \<^verbatim>\<open>Map.delete\<close> removes the entry.
\<close>

record GeocodingCache =
  cache :: "(string \<times> GeocodingResult) list"
  maxSize :: nat

definition newGeocodingCache :: GeocodingCache where
  "newGeocodingCache = \<lparr>cache = [], maxSize = 1000\<rparr>"

definition normalizeAddress :: "string \<Rightarrow> string" where
  "normalizeAddress address = collapseWhitespace (trim (toLowerCase address))"

definition cache_get :: "GeocodingCache \<Rightarrow> string \<Rightarrow> GeocodingResult option" where
  "cache_get gc address = map_of (cache gc) (normalizeAddress address)"

definition cache_set :: "GeocodingCache \<Rightarrow> string \<Rightarrow> GeocodingResult \<Rightarrow> GeocodingCache" where
  "cache_set gc address result =
     (let normalizedAddress = normalizeAddress address;
          kept = (if length (cache gc) \<ge> maxSize gc
                  then (case cache gc of [] \<Rightarrow> []
                        | (firstKey, _) # _ \<Rightarrow> AList.delete firstKey (cache gc))
                  else cache gc)
      in gc\<lparr>cache := AList.update normalizedAddress result kept\<rparr>)"

definition cache_has :: "GeocodingCache \<Rightarrow> string \<Rightarrow> bool" where
  "cache_has gc address = (map_of (cache gc) (normalizeAddress address) \<noteq> None)"

definition cache_clear :: "GeocodingCache \<Rightarrow> GeocodingCache" where
  "cache_clear gc = gc\<lparr>cache := []\<rparr>"

definition cache_size :: "GeocodingCache \<Rightarrow> nat" where
  "cache_size gc = length (cache gc)"

text \<open>A call of one of the public methods of the cache, and its effect on the cache.\<close>

datatype cache_call =
    Get string
  | Set string GeocodingResult
  | Has string
  | Clear
  | Size

fun cache_step :: "GeocodingCache \<Rightarrow> cache_call \<Rightarrow> GeocodingCache" where
  "cache_step gc (Get address) = gc"
| "cache_step gc (Set address result) = cache_set gc address result"
| "cache_step gc (Has address) = gc"
| "cache_step gc Clear = cache_clear gc"
| "cache_step gc Size = gc"

definition set_all :: "GeocodingCache \<Rightarrow> (string \<times> GeocodingResult) list \<Rightarrow> GeocodingCache" where
  \<comment> \<open>a sequence of \<^verbatim>\<open>set\<close> calls, in order\<close>
  "set_all gc entries = foldl (\<lambda>c (address, result). cache_set c address result) gc entries"

text \<open>
  What the map would hold after a sequence of \<^verbatim>\<open>set\<close> calls if nothing were evicted,
  and sample data for the closed instances below.
\<close>

definition normalized :: "(string \<times> GeocodingResult) list \<Rightarrow> (string \<times> GeocodingResult) list" where
  "normalized entries = map (\<lambda>(address, result). (normalizeAddress address, result)) entries"

definition within_capacity :: "GeocodingCache \<Rightarrow> nat \<Rightarrow> bool" where
  \<comment> \<open>the capacity is \<open>n\<close> and the map holds at most \<open>n\<close> entries\<close>
  "within_capacity gc n = (maxSize gc = n \<and> length (cache gc) \<le> n)"

definition sample_result :: GeocodingResult where
  "sample_result =
     \<lparr>coordinates = \<lparr>lat = Some 51.5, lng = Some (-0.1)\<rparr>,
      formattedAddress = Some ''London'', confidence = Some 0.8\<rparr>"

definition sample_entries :: "(string \<times> GeocodingResult) list" where
  "sample_entries = map (\<lambda>n. (replicate n CHR ''a'', sample_result)) [1..<1002]"

definition three_entries :: "(string \<times> GeocodingResult) list" where
  "three_entries =
     [(''Address 1'', sample_result), (''Address 2'', sample_result), (''Address 3'', sample_result)]"

section \<open>The geocoding client\<close>

datatype GeocodingErrorCode = NETWORK_ERROR | RATE_LIMIT | NO_RESULTS | INVALID_ADDRESS

record GeocodingError =
  message :: string
  code :: GeocodingErrorCode

text \<open>
  What the client reads of one candidate of the provider's answer. The provider encodes
  latitude and longitude as strings; \<open>candLat\<close> and \<open>candLon\<close> are the numbers that
  \<^verbatim>\<open>parseFloat\<close> reads from them. \<open>importance\<close> is \<open>None\<close> when the candidate has none.
\<close>

record Candidate =
  candLat :: number
  candLon :: number
  display_name :: "string option"
  resultClass :: "string option"
  resultType :: "string option"
  importance :: "number option"
  addresstype :: "string option"




function showNat :: "nat \<Rightarrow> string" where
  \<comment> \<open>the decimal digits of a number\<close>
  "showNat n = (if n < 10 then [char_of (48 + n)] else showNat (n div 10) @ [char_of (48 + n mod 10)])"
  by pat_completeness auto
termination
  by (relation "measure id") auto

definition calculateConfidence :: "Candidate \<Rightarrow> rat" where
  "calculateConfidence r =
     (let c0 = 0.5;
          c1 = (if resultClass r = Some ''amenity'' \<and> resultType r = Some ''school''
                then c0 + 0.3 else c0);
          c2 = (case importance r of
                  Some (Some i) \<Rightarrow> if i \<noteq> 0 then c1 + i * 0.2 else c1
                | _ \<Rightarrow> c1);
          c3 = (if addresstype r = Some ''amenity'' then c2 + 0.2 else c2);
          c4 = (if addresstype r = Some ''house'' then c3 + 0.1 else c3)
      in min c4 1.0)"




text \<open>For the statements about the client: the terms of the claims, and sample values.\<close>

definition importanceValue :: "Candidate \<Rightarrow> rat" where
  \<comment> \<open>the importance of a candidate, 0 when it has none or it is not a number\<close>
  "importanceValue r = (case importance r of Some (Some i) \<Rightarrow> i | _ \<Rightarrow> 0)"

definition negativeCandidate :: Candidate where
  "negativeCandidate =
     \<lparr>candLat = Some 51.5, candLon = Some (-0.1), display_name = Some ''London'',
      resultClass = Some ''place'', resultType = Some ''city'',
      importance = Some (Some (-3)), addresstype = Some ''city''\<rparr>"

definition schoolCandidate :: Candidate where
  "schoolCandidate =
     \<lparr>candLat = Some 51.5, candLon = Some (-0.1), display_name = Some ''A School'',
      resultClass = Some ''amenity'', resultType = Some ''school'',
      importance = Some (Some 0.4), addresstype = Some ''amenity''\<rparr>"









section \<open>Regular expressions\<close>

text \<open>
  The regular expressions of the program are sequences of literals, repeated character
  classes, anchors and capturing groups. \<^verbatim>\<open>Rep P lo hi greedy\<close> is a class \<open>P\<close>
  repeated between \<open>lo\<close> and \<open>hi\<close> times (\<open>None\<close>: unbounded), longest first when
  greedy and shortest first when lazy; \<^verbatim>\<open>Open\<close> and \<^verbatim>\<open>Close\<close> delimit a capturing
  group. \<open>run\<close> is the backtracking matcher at one start position, and \<open>regex_match\<close>
  tries the start positions from the left, as \<^verbatim>\<open>String.match\<close> and \<^verbatim>\<open>RegExp.test\<close> do
  for a regular expression without the global flag; the result lists the captured groups.
\<close>

datatype item =
    Bol | Eol | WordB
  | Lit string | LitI string
  | Rep "char \<Rightarrow> bool" nat "nat option" bool
  | Open | Close

definition wordBoundary :: "string \<Rightarrow> nat \<Rightarrow> bool" where
  "wordBoundary s pos =
     ((0 < pos \<and> pos \<le> length s \<and> isWordChar (s ! (pos - 1)))
        \<noteq> (pos < length s \<and> isWordChar (s ! pos)))"

definition counts :: "(char \<Rightarrow> bool) \<Rightarrow> nat \<Rightarrow> nat option \<Rightarrow> bool \<Rightarrow> string \<Rightarrow> nat list" where
  "counts P lo hi greedy s =
     (let avail = length (takeWhile P s);
          top = (case hi of None \<Rightarrow> avail | Some h \<Rightarrow> min h avail);
          ks = [lo..<Suc top]
      in if greedy then rev ks else ks)"

fun run :: "item list \<Rightarrow> string \<Rightarrow> nat \<Rightarrow> nat list \<Rightarrow> string list \<Rightarrow> string list option"
  and try_counts :: "item list \<Rightarrow> string \<Rightarrow> nat \<Rightarrow> nat list \<Rightarrow> string list \<Rightarrow> nat list \<Rightarrow> string list option"
where
  "run [] s pos opens caps = Some caps"
| "run (Bol # r) s pos opens caps = (if pos = 0 then run r s pos opens caps else None)"
| "run (Eol # r) s pos opens caps = (if pos = length s then run r s pos opens caps else None)"
| "run (WordB # r) s pos opens caps = (if wordBoundary s pos then run r s pos opens caps else None)"
| "run (Lit l # r) s pos opens caps =
     (if take (length l) (drop pos s) = l then run r s (pos + length l) opens caps else None)"
| "run (LitI l # r) s pos opens caps =
     (if toLowerCase (take (length l) (drop pos s)) = toLowerCase l
      then run r s (pos + length l) opens caps else None)"
| "run (Rep P lo hi greedy # r) s pos opens caps =
     try_counts r s pos opens caps (counts P lo hi greedy (drop pos s))"
| "run (Open # r) s pos opens caps = run r s pos (pos # opens) caps"
| "run (Close # r) s pos opens caps =
     (case opens of [] \<Rightarrow> run r s pos opens caps
      | start # opens' \<Rightarrow> run r s pos opens' (caps @ [take (pos - start) (drop start s)]))"
| "try_counts r s pos opens caps [] = None"
| "try_counts r s pos opens caps (k # ks) =
     (case run r s (pos + k) opens caps of
        Some result \<Rightarrow> Some result
      | None \<Rightarrow> try_counts r s pos opens caps ks)"

fun first_match :: "item list \<Rightarrow> string \<Rightarrow> nat list \<Rightarrow> string list option" where
  "first_match rx s [] = None"
| "first_match rx s (start # starts) =
     (case run rx s start [] [] of
        Some caps \<Rightarrow> Some caps
      | None \<Rightarrow> first_match rx s starts)"

definition regex_match :: "string \<Rightarrow> item list \<Rightarrow> string list option" where
  "regex_match s rx = first_match rx s [0..<Suc (length s)]"




definition pound :: char where
  "pound = CHR 0xA3"

definition notPound :: "char \<Rightarrow> bool" where
  "notPound c = (c \<noteq> pound)"

definition isDigitOrComma :: "char \<Rightarrow> bool" where
  "isDigitOrComma c = (isDigit c \<or> c = CHR '','')"



definition digitValue :: "string \<Rightarrow> int" where
  "digitValue ds = foldl (\<lambda>n c. 10 * n + (of_char c - 48)) 0 ds"

definition parseInt :: "string \<Rightarrow> number" where
  \<comment> \<open>\<^verbatim>\<open>parseInt\<close> on the strings the parser passes: decimal digits only, possibly none;
      the value is exact (no rounding above \<open>2^53\<close>)\<close>
  "parseInt s =
     (let ds = takeWhile isDigit s
      in if ds = [] then None else Some (of_int (digitValue ds)))"

definition removeCommas :: "string \<Rightarrow> string" where
  \<comment> \<open>\<^verbatim>\<open>replace(/,/g, '')\<close>\<close>
  "removeCommas s = filter (\<lambda>c. c \<noteq> CHR '','') s"


section \<open>School records\<close>

datatype SchoolType = GRAMMAR | PRIVATE | STATE_PRIMARY | STATE_PRIMARY_FAITH | COMPREHENSIVE

datatype Gender = BOYS | GIRLS | COED

datatype Level = PRIMARY | SECONDARY

datatype County = LONDON | BUCKINGHAMSHIRE | KENT

datatype SchoolColor =
    GIRLS_SECONDARY | GIRLS_PRIMARY | BOYS_SECONDARY | BOYS_PRIMARY
  | COED_SECONDARY | COED_PRIMARY | OTHER

datatype BoardingOption = Day | Boarding | Both

fun colorValue :: "SchoolColor \<Rightarrow> string" where
  "colorValue GIRLS_SECONDARY = ''#FF69B4''"
| "colorValue GIRLS_PRIMARY = ''#9370DB''"
| "colorValue BOYS_SECONDARY = ''#00008B''"
| "colorValue BOYS_PRIMARY = ''#87CEEB''"
| "colorValue COED_SECONDARY = ''#228B22''"
| "colorValue COED_PRIMARY = ''#FFD700''"
| "colorValue OTHER = ''#FF0000''"

definition schoolColors :: "SchoolColor list" where
  \<comment> \<open>the members of the enumeration, in declaration order\<close>
  "schoolColors =
     [GIRLS_SECONDARY, GIRLS_PRIMARY, BOYS_SECONDARY, BOYS_PRIMARY,
      COED_SECONDARY, COED_PRIMARY, OTHER]"

record Cost =
  amount :: number
  currency :: string
  period :: string
  isFree :: bool
  voluntaryContribution :: "number option"
  includesVAT :: "bool option"

record Ranking =
  position :: number
  total :: "number option"
  source :: string
  year :: "number option"

text \<open>
  The fields of \<^verbatim>\<open>School\<close> that the parser, the validator, the filters and the search
  read or write; an optional field is an \<open>option\<close>. The transport, admissions, success
  rate and Ofsted fields are carried through untouched by all of them and are left out.
\<close>

record School =
  schoolId :: string
  name :: string
  schoolType :: SchoolType
  gender :: Gender
  level :: Level
  address :: string
  postcode :: string
  coordinates :: "Coordinates option"
  ranking :: "Ranking option"
  cost :: Cost
  competitiveness :: number
  schoolNotes :: string
  website :: "string option"
  borough :: string
  county :: County
  color :: SchoolColor
  boardingOptions :: "BoardingOption option"
  religiousAffiliation :: "string option"

section \<open>The record parser\<close>





definition parseCost :: "string \<Rightarrow> Cost" where
  "parseCost v =
     (if str_includes (toLowerCase v) ''free'' then
        (let voluntaryMatch =
               regex_match v [LitI ''voluntary'', Rep notPound 0 None True, Lit [pound],
                              Open, Rep isDigitOrComma 1 None True, Close];
             voluntaryAmount =
               (case voluntaryMatch of
                  Some (g # _) \<Rightarrow> Some (parseInt (removeCommas g))
                | _ \<Rightarrow> None)
         in \<lparr>amount = Some 0, currency = ''GBP'', period = ''year'', isFree = True,
             voluntaryContribution = voluntaryAmount, includesVAT = Some False\<rparr>)
      else
        (case regex_match v [Lit [pound], Open, Rep isDigitOrComma 1 None True, Close] of
           Some (g # _) \<Rightarrow>
             \<lparr>amount = parseInt (removeCommas g), currency = ''GBP'', period = ''year'',
              isFree = False, voluntaryContribution = None,
              includesVAT = Some (str_includes v ''(inc. VAT)'')\<rparr>
         | _ \<Rightarrow>
             \<lparr>amount = Some 0, currency = ''GBP'', period = ''year'', isFree = True,
              voluntaryContribution = None, includesVAT = None\<rparr>))"





















text \<open>
  The two cost texts of the parser's tests, and a document with one school that has no
  \<^verbatim>\<open>School Type\<close> line.
\<close>

definition freeCostText :: string where
  "freeCostText = ''Free (voluntary contributions expected)''"

definition feeCostText :: string where
  "feeCostText = pound # ''25,000 (inc. VAT)''"


section \<open>The validation engine\<close>

text \<open>Comparisons of numbers: every comparison with \<^verbatim>\<open>NaN\<close> is false.\<close>

definition num_lt :: "number \<Rightarrow> number \<Rightarrow> bool" where
  "num_lt a b = (case (a, b) of (Some x, Some y) \<Rightarrow> x < y | _ \<Rightarrow> False)"

definition num_le :: "number \<Rightarrow> number \<Rightarrow> bool" where
  "num_le a b = (case (a, b) of (Some x, Some y) \<Rightarrow> x \<le> y | _ \<Rightarrow> False)"

definition num_gt :: "number \<Rightarrow> number \<Rightarrow> bool" where
  "num_gt a b = num_lt b a"

definition num_ge :: "number \<Rightarrow> number \<Rightarrow> bool" where
  "num_ge a b = num_le b a"

definition showInt :: "int \<Rightarrow> string" where
  "showInt i = (if i < 0 then CHR ''-'' # showNat (nat (- i)) else showNat (nat i))"

definition mathRound :: "rat \<Rightarrow> int" where
  \<comment> \<open>\<^verbatim>\<open>Math.round\<close>: the nearest integer, halves upwards\<close>
  "mathRound x = \<lfloor>x + 1 / 2\<rfloor>"

definition isValidCoordinates :: "Coordinates \<Rightarrow> bool" where
  "isValidCoordinates coords =
     (case (lat coords, lng coords) of
        (Some a, Some b) \<Rightarrow> - 90 \<le> a \<and> a \<le> 90 \<and> - 180 \<le> b \<and> b \<le> 180
      | _ \<Rightarrow> False)"

definition hasValidCoordinates :: "School \<Rightarrow> bool" where
  \<comment> \<open>\<^verbatim>\<open>school.coordinates && isValidCoordinates(school.coordinates)\<close>\<close>
  "hasValidCoordinates s =
     (case coordinates s of Some c \<Rightarrow> isValidCoordinates c | None \<Rightarrow> False)"

datatype Severity = Error | Warning | Info

record ValidationIssue =
  field :: string
  severity :: Severity
  message :: string

record ValidationResult =
  school :: School
  isValid :: bool
  issues :: "ValidationIssue list"
  geocodingResult :: "GeocodingResult option"

record DataValidationSummary =
  totalSchools :: int
  validSchools :: int
  invalidSchools :: int
  geocodingErrors :: int
  validationResults :: "ValidationResult list"
  issues :: "ValidationIssue list"

fun schoolTypeValue :: "SchoolType \<Rightarrow> string" where
  "schoolTypeValue GRAMMAR = ''Grammar''"
| "schoolTypeValue PRIVATE = ''Private''"
| "schoolTypeValue STATE_PRIMARY = ''State Primary''"
| "schoolTypeValue STATE_PRIMARY_FAITH = ''State Primary (Faith)''"
| "schoolTypeValue COMPREHENSIVE = ''Comprehensive''"

fun genderValue :: "Gender \<Rightarrow> string" where
  "genderValue BOYS = ''Boys''"
| "genderValue GIRLS = ''Girls''"
| "genderValue COED = ''Co-ed''"

fun levelValue :: "Level \<Rightarrow> string" where
  "levelValue PRIMARY = ''Primary''"
| "levelValue SECONDARY = ''Secondary''"

definition validateRequiredFields :: "School \<Rightarrow> ValidationIssue list" where
  \<comment> \<open>the issues pushed by the loop over the required fields; a field of the record
      type is never \<^verbatim>\<open>undefined\<close> or \<^verbatim>\<open>null\<close>, so it fails when it is the empty string\<close>
  "validateRequiredFields s =
     concat (map (\<lambda>(f, v).
               if v = [] then
                 [\<lparr>field = f, severity = Error,
                   message = ''Required field '' @ [CHR 0x27] @ f @ [CHR 0x27] @ '' is missing or empty''\<rparr>]
               else [])
       [(''id'', schoolId s), (''name'', name s), (''address'', address s),
        (''schoolType'', schoolTypeValue (schoolType s)), (''gender'', genderValue (gender s)),
        (''level'', levelValue (level s)), (''color'', colorValue (color s))])"

definition validateFieldFormats :: "(string \<Rightarrow> bool) \<Rightarrow> School \<Rightarrow> ValidationIssue list" where
  \<comment> \<open>the issues pushed by the format checks, in order. \<open>validUrl\<close> tells whether
      \<^verbatim>\<open>new URL\<close> accepts a text. The amount of a cost is a number by its type, so the
      check of its type never fires and is left out.\<close>
  "validateFieldFormats validUrl s =
     (if trim (schoolId s) = [] then
        [\<lparr>field = ''id'', severity = Error, message = ''ID must be a non-empty string''\<rparr>]
      else []) @
     (if name s \<noteq> [] \<and> length (name s) < 3 then
        [\<lparr>field = ''name'', severity = Error,
          message = ''School name must be at least 3 characters long''\<rparr>]
      else []) @
     (if address s \<noteq> [] \<and> length (address s) < 10 then
        [\<lparr>field = ''address'', severity = Warning,
          message = ''Address seems too short, may cause geocoding issues''\<rparr>]
      else []) @
     (if colorValue (color s) \<notin> set (map colorValue schoolColors) then
        [\<lparr>field = ''color'', severity = Error,
          message = ''Color must be a valid school color from the defined color scheme''\<rparr>]
      else []) @
     (if currency (cost s) \<notin> set [''GBP'', ''USD'', ''EUR''] then
        [\<lparr>field = ''cost'', severity = Warning,
          message = ''Cost currency should be a valid currency code''\<rparr>]
      else []) @
     (if period (cost s) \<notin> set [''year'', ''term''] then
        [\<lparr>field = ''cost'', severity = Warning,
          message = ''Cost period should be either \"year\" or \"term\"''\<rparr>]
      else []) @
     (if num_lt (competitiveness s) (Some 1) \<or> num_gt (competitiveness s) (Some 5) then
        [\<lparr>field = ''competitiveness'', severity = Error,
          message = ''Competitiveness must be between 1 and 5''\<rparr>]
      else []) @
     (case website s of
        Some w \<Rightarrow>
          if w \<noteq> [] \<and> \<not> validUrl w then
            [\<lparr>field = ''website'', severity = Warning,
              message = ''Website URL appears to be invalid''\<rparr>]
          else []
      | None \<Rightarrow> [])"

definition validateCoordinates ::
    "(string \<Rightarrow> GeocodingError + GeocodingResult) \<Rightarrow> School
       \<Rightarrow> ValidationIssue list \<times> GeocodingResult option" where
  \<comment> \<open>the issues pushed and the result returned. \<open>geocode\<close> is how the call of
      \<^verbatim>\<open>geocoder.geocodeAddress\<close> ends for an address: rejected with an error or resolved
      with a result.\<close>
  "validateCoordinates geocode s =
     (if hasValidCoordinates s then ([], None)
      else if address s = [] then
        ([\<lparr>field = ''coordinates'', severity = Error,
           message = ''Invalid coordinates and no address provided for geocoding''\<rparr>], None)
      else
        (case geocode (address s) of
           Inr result \<Rightarrow>
             ((case confidence result of
                 Some c \<Rightarrow>
                   if c \<noteq> 0 \<and> c < 0.5 then
                     [\<lparr>field = ''coordinates'', severity = Warning,
                       message = ''Geocoding confidence is low ('' @ showInt (mathRound (c * 100))
                                 @ ''%) for address: '' @ address s\<rparr>]
                   else
                     [\<lparr>field = ''coordinates'', severity = Info,
                       message = ''Coordinates geocoded successfully for address: '' @ address s\<rparr>]
               | None \<Rightarrow>
                   [\<lparr>field = ''coordinates'', severity = Info,
                     message = ''Coordinates geocoded successfully for address: '' @ address s\<rparr>]),
              Some result)
         | Inl geocodingError \<Rightarrow>
             ([\<lparr>field = ''coordinates'', severity = Error,
                message = ''Geocoding failed: '' @ GeocodingError.message geocodingError\<rparr>], None)))"

definition validateSchool ::
    "(string \<Rightarrow> bool) \<Rightarrow> (string \<Rightarrow> GeocodingError + GeocodingResult) \<Rightarrow> School
       \<Rightarrow> ValidationResult" where
  \<comment> \<open>the record of the result is the record passed in, after the assignment to its
      coordinates if there was one\<close>
  "validateSchool validUrl geocode s =
     (let (coordinateIssues, coordinatesValid) = validateCoordinates geocode s;
          allIssues = validateRequiredFields s @ validateFieldFormats validUrl s @ coordinateIssues;
          s' = (case coordinatesValid of
                  Some result \<Rightarrow>
                    if \<not> hasValidCoordinates s
                    then s\<lparr>coordinates := Some (GeocodingResult.coordinates result)\<rparr>
                    else s
                | None \<Rightarrow> s)
      in \<lparr>school = s',
          isValid = (length (filter (\<lambda>issue. severity issue = Error) allIssues) = 0),
          issues = allIssues,
          geocodingResult = coordinatesValid\<rparr>)"

definition batchSize :: nat where
  "batchSize = 10"

definition countsAsGeocodingError :: "ValidationResult \<Rightarrow> bool" where
  "countsAsGeocodingError r =
     list_ex (\<lambda>issue. field issue = ''coordinates'' \<and> str_includes (message issue) ''geocoding'')
       (ValidationResult.issues r)"

function validateBatches ::
    "(string \<Rightarrow> bool) \<Rightarrow> (nat \<Rightarrow> string \<Rightarrow> GeocodingError + GeocodingResult) \<Rightarrow> School list
       \<Rightarrow> nat \<Rightarrow> ValidationResult list \<times> ValidationIssue list \<times> int
       \<Rightarrow> ValidationResult list \<times> ValidationIssue list \<times> int" where
  \<comment> \<open>the loop over the batches, from index \<open>i\<close>, with the results, the issues and the
      number of geocoding errors so far. \<open>geocode k\<close> is how the geocoding call made for
      the record at index \<open>k\<close> ends. The pause between two batches is not modelled.\<close>
  "validateBatches validUrl geocode schoolList i (results, allIssues, errorCount) =
     (if i < length schoolList then
        (let batch = take batchSize (drop i schoolList);
             batchResults = map (\<lambda>(j, s). validateSchool validUrl (geocode (i + j)) s)
                              (enumerate 0 batch)
         in validateBatches validUrl geocode schoolList (i + batchSize)
              (results @ batchResults,
               allIssues @ concat (map ValidationResult.issues batchResults),
               errorCount + int (length (filter countsAsGeocodingError batchResults))))
      else (results, allIssues, errorCount))"
  by pat_completeness auto
termination
  by (relation "measure (\<lambda>(validUrl, geocode, schoolList, i, acc). length schoolList - i)")
     (auto simp: batchSize_def)

definition validateSchoolData ::
    "(string \<Rightarrow> bool) \<Rightarrow> (nat \<Rightarrow> string \<Rightarrow> GeocodingError + GeocodingResult) \<Rightarrow> School list
       \<Rightarrow> DataValidationSummary" where
  "validateSchoolData validUrl geocode schoolList =
     (let (results, allIssues, errorCount) =
            validateBatches validUrl geocode schoolList 0 ([], [], 0);
          valid = int (length (filter isValid results))
      in \<lparr>totalSchools = int (length schoolList),
          validSchools = valid,
          invalidSchools = int (length schoolList) - valid,
          geocodingErrors = errorCount,
          validationResults = results,
          issues = allIssues\<rparr>)"


text \<open>
  For the statements about the validator: the validation of the record at an index of
  the list, a sample record whose coordinates are not numbers, and two ways the geocoder
  can behave.
\<close>

definition validateAt ::
    "(string \<Rightarrow> bool) \<Rightarrow> (nat \<Rightarrow> string \<Rightarrow> GeocodingError + GeocodingResult)
       \<Rightarrow> nat \<times> School \<Rightarrow> ValidationResult" where
  \<comment> \<open>the validation of the record at an index\<close>
  "validateAt validUrl geocode = (\<lambda>(k, s). validateSchool validUrl (geocode k) s)"

definition sampleSchool :: School where
  "sampleSchool =
     \<lparr>schoolId = ''1'', name = ''Test Grammar School'', schoolType = GRAMMAR, gender = GIRLS,
      level = SECONDARY, address = ''Central Square, London NW11 7BN'', postcode = ''NW11 7BN'',
      coordinates = Some \<lparr>lat = None, lng = None\<rparr>, ranking = None,
      cost = \<lparr>amount = Some 0, currency = ''GBP'', period = ''year'', isFree = True,
              voluntaryContribution = None, includesVAT = None\<rparr>,
      competitiveness = Some 5, schoolNotes = ''Excellent school'', website = None,
      borough = ''Barnet'', county = LONDON, color = GIRLS_SECONDARY,
      boardingOptions = None, religiousAffiliation = None\<rparr>"

definition noResultsError :: GeocodingError where
  "noResultsError = \<lparr>GeocodingError.message = ''No results found'', code = NO_RESULTS\<rparr>"

definition failingGeocode :: "nat \<Rightarrow> string \<Rightarrow> GeocodingError + GeocodingResult" where
  \<comment> \<open>the geocoder fails for the records at even indices\<close>
  "failingGeocode k a =
     (if even k then Inl noResultsError
      else Inr \<lparr>GeocodingResult.coordinates = \<lparr>lat = Some 51.5, lng = Some (- 0.1)\<rparr>,
               formattedAddress = None, confidence = Some 0.8\<rparr>)"

section \<open>The query engine\<close>

text \<open>
  The criteria of \<^verbatim>\<open>filterSchools\<close>. A criterion that is absent is \<open>None\<close>, and so is a
  bound of a range that is \<^verbatim>\<open>undefined\<close>, which the filter form produces when one of
  the two inputs of a range is empty.
\<close>

record Range =
  rangeMin :: "number option"
  rangeMax :: "number option"

record SchoolFilters =
  schoolTypes :: "SchoolType list option"
  genders :: "Gender list option"
  levels :: "Level list option"
  costRange :: "Range option"
  competitiveness :: "number list option"
  counties :: "County list option"
  boroughs :: "string list option"
  rankingRange :: "Range option"
  religiousAffiliation :: "string list option"
  boardingOptions :: "BoardingOption list option"




text \<open>
  The criteria of \<^verbatim>\<open>optimizedSchoolFilter\<close>, which differ: lists for the type, the
  gender, the level and the borough; pairs of bounds for the cost, the competitiveness and
  the ranking.
\<close>

record FilterOptions =
  schoolType :: "SchoolType list option"
  gender :: "Gender list option"
  level :: "Level list option"
  costRange :: "(number \<times> number) option"
  competitiveness :: "(number \<times> number) option"
  borough :: "string list option"
  ranking :: "(number \<times> number) option"

definition rankingActive :: "FilterOptions \<Rightarrow> bool" where
  \<comment> \<open>the guard of the ranking filter: bounds are given and they are not the full range
      from 1 to 1000\<close>
  "rankingActive filters =
     (case FilterOptions.ranking filters of
        Some (lo, hi) \<Rightarrow> num_gt lo (Some 1) \<or> num_lt hi (Some 1000)
      | None \<Rightarrow> False)"

definition schoolFilter :: "School list \<Rightarrow> FilterOptions \<Rightarrow> School list" where
  \<comment> \<open>the function that \<^verbatim>\<open>optimizedSchoolFilter\<close> memoizes; the timing and the log line
      are left out\<close>
  "schoolFilter schoolList filters =
     (let filtered = schoolList;
          filtered = (case FilterOptions.schoolType filters of
                        Some ts \<Rightarrow> if ts \<noteq> [] then filter (\<lambda>s. School.schoolType s \<in> set ts) filtered
                                  else filtered
                      | None \<Rightarrow> filtered);
          filtered = (case FilterOptions.gender filters of
                        Some gs \<Rightarrow> if gs \<noteq> [] then filter (\<lambda>s. School.gender s \<in> set gs) filtered
                                  else filtered
                      | None \<Rightarrow> filtered);
          filtered = (case FilterOptions.level filters of
                        Some ls \<Rightarrow> if ls \<noteq> [] then filter (\<lambda>s. School.level s \<in> set ls) filtered
                                  else filtered
                      | None \<Rightarrow> filtered);
          filtered = (case FilterOptions.costRange filters of
                        Some (minCost, maxCost) \<Rightarrow>
                          filter (\<lambda>s. let c = (if isFree (cost s) then Some 0 else amount (cost s))
                                       in num_ge c minCost \<and> num_le c maxCost) filtered
                      | None \<Rightarrow> filtered);
          filtered = (case FilterOptions.competitiveness filters of
                        Some (minComp, maxComp) \<Rightarrow>
                          filter (\<lambda>s. num_ge (School.competitiveness s) minComp \<and>
                                       num_le (School.competitiveness s) maxComp) filtered
                      | None \<Rightarrow> filtered);
          filtered = (case FilterOptions.borough filters of
                        Some bs \<Rightarrow> if bs \<noteq> [] then filter (\<lambda>s. School.borough s \<in> set bs) filtered
                                  else filtered
                      | None \<Rightarrow> filtered);
          filtered = (if rankingActive filters then
                        (case FilterOptions.ranking filters of
                           Some (lo, hi) \<Rightarrow>
                             filter (\<lambda>s. case School.ranking s of
                                            None \<Rightarrow> False
                                          | Some rk \<Rightarrow> num_ge (position rk) lo \<and> num_le (position rk) hi)
                               filtered
                         | None \<Rightarrow> filtered)
                      else filtered)
      in filtered)"

record SearchHit =
  school :: School
  relevance :: nat













definition unrankedSchool :: School where
  "unrankedSchool = sampleSchool\<lparr>schoolId := ''2'', name := ''Hill Primary School''\<rparr>"

definition rankedSchool :: School where
  "rankedSchool =
     sampleSchool\<lparr>School.ranking := Some \<lparr>position = Some 9, total = None, source = ''9th nationally'',
                                    year = None\<rparr>\<rparr>"



definition rankingOnly :: "number \<Rightarrow> number \<Rightarrow> FilterOptions" where
  \<comment> \<open>ranking bounds and no other criterion\<close>
  "rankingOnly lo hi =
     \<lparr>schoolType = None, gender = None, level = None, costRange = None,
      competitiveness = None, borough = None, ranking = Some (lo, hi)\<rparr>"

section \<open>The cache never exceeds its capacity\<close>

lemma length_update_le: "length (AList.update k v al) \<le> Suc (length al)"
  by (induction al) auto

lemma maxSize_cache_set: "maxSize (cache_set gc a r) = maxSize gc"
  by (simp add: cache_set_def Let_def)

lemma length_cache_set:
  assumes pos: "0 < maxSize gc" and le: "length (cache gc) \<le> maxSize gc"
  shows "length (cache (cache_set gc a r)) \<le> maxSize gc"
proof (cases "length (cache gc) \<ge> maxSize gc")
  case True
  with pos obtain e es where c: "cache gc = e # es"
    by (cases "cache gc") auto
  obtain firstKey v where e: "e = (firstKey, v)"
    by (cases e)
  have "length (AList.delete firstKey (cache gc)) \<le> length es"
    using c e AList.length_delete_le [of firstKey es] by simp
  then have "length (AList.delete firstKey (cache gc)) < maxSize gc"
    using le c by simp
  moreover have "length (AList.update (normalizeAddress a) r (AList.delete firstKey (cache gc)))
      \<le> Suc (length (AList.delete firstKey (cache gc)))"
    by (rule length_update_le)
  ultimately show ?thesis
    using True c e by (simp add: cache_set_def)
next
  case False
  moreover have "length (AList.update (normalizeAddress a) r (cache gc)) \<le> Suc (length (cache gc))"
    by (rule length_update_le)
  ultimately show ?thesis
    by (simp add: cache_set_def)
qed

lemma within_capacity_step:
  "0 < n \<Longrightarrow> within_capacity gc n \<Longrightarrow> within_capacity (cache_step gc call) n"
  by (cases call)
     (auto simp: within_capacity_def maxSize_cache_set length_cache_set cache_clear_def)

lemma within_capacity_calls:
  "0 < n \<Longrightarrow> within_capacity gc n \<Longrightarrow> within_capacity (foldl cache_step gc calls) n"
  by (induction calls arbitrary: gc) (simp_all add: within_capacity_step)

text \<open>
  C6. Starting from the empty cache that the constructor makes, after any sequence of
  calls of \<^verbatim>\<open>get\<close>, \<^verbatim>\<open>set\<close>, \<^verbatim>\<open>has\<close>, \<^verbatim>\<open>clear\<close> and \<^verbatim>\<open>size\<close> the cache holds at
  most 1000 entries, and its capacity is still 1000.
\<close>

theorem cache_size_le_capacity:
  "cache_size (foldl cache_step newGeocodingCache calls) \<le> 1000 \<and>
   maxSize (foldl cache_step newGeocodingCache calls) = 1000"
proof -
  have "within_capacity newGeocodingCache 1000"
    by (simp add: within_capacity_def newGeocodingCache_def)
  then have "within_capacity (foldl cache_step newGeocodingCache calls) 1000"
    by (intro within_capacity_calls) simp_all
  then show ?thesis
    by (simp add: within_capacity_def cache_size_def)
qed

section \<open>Normalised keys and first-in first-out eviction\<close>

lemma update_fresh: "k \<notin> fst ` set al \<Longrightarrow> AList.update k v al = al @ [(k, v)]"
  by (induction al) auto

lemma delete_first_distinct:
  "distinct (map fst ((k, v) # al)) \<Longrightarrow> AList.delete k ((k, v) # al) = al"
  by (force simp: AList.delete_eq intro!: filter_True)

lemma set_all_snoc:
  "set_all gc (entries @ [(a, r)]) = cache_set (set_all gc entries) a r"
  by (simp add: set_all_def)

lemma maxSize_set_all: "maxSize (set_all gc entries) = maxSize gc"
  by (induction entries rule: rev_induct)
     (auto simp: set_all_def maxSize_cache_set)

lemma map_fst_normalized: "map fst (normalized entries) = map (\<lambda>e. normalizeAddress (fst e)) entries"
  by (induction entries) (auto simp: normalized_def)

lemma keys_normalized:
  "fst ` set (normalized entries) = set (map (\<lambda>e. normalizeAddress (fst e)) entries)"
  by (induction entries) (auto simp: normalized_def)

lemma set_all_below_capacity:
  "cache gc = [] \<Longrightarrow> distinct (map (\<lambda>e. normalizeAddress (fst e)) entries) \<Longrightarrow>
   length entries \<le> maxSize gc \<Longrightarrow> cache (set_all gc entries) = normalized entries"
proof (induction entries rule: rev_induct)
  case Nil
  then show ?case by (simp add: set_all_def normalized_def)
next
  case (snoc e es)
  obtain a r where e: "e = (a, r)" by (cases e)
  from snoc.prems have d: "distinct (map (\<lambda>e. normalizeAddress (fst e)) es)"
    and fresh: "normalizeAddress a \<notin> set (map (\<lambda>e. normalizeAddress (fst e)) es)"
    and len: "length es < maxSize gc"
    using e by auto
  from snoc.IH snoc.prems(1) d len have IH: "cache (set_all gc es) = normalized es" by simp
  have "normalizeAddress a \<notin> fst ` set (normalized es)"
    using fresh by (simp only: keys_normalized) simp
  then have "AList.update (normalizeAddress a) r (normalized es) = normalized es @ [(normalizeAddress a, r)]"
    by (rule update_fresh)
  moreover have "length (normalized es) < maxSize (set_all gc es)"
    using len by (simp add: normalized_def maxSize_set_all)
  ultimately have "cache (cache_set (set_all gc es) a r) = normalized es @ [(normalizeAddress a, r)]"
    using IH by (simp add: cache_set_def)
  then show ?case
    using e by (simp add: set_all_snoc normalized_def)
qed

lemma set_all_overflow:
  assumes empty: "cache gc = []" and pos: "0 < maxSize gc"
    and d: "distinct (map (\<lambda>e. normalizeAddress (fst e)) entries)"
    and len: "length entries = maxSize gc + 1"
  shows "cache (set_all gc entries) = tl (normalized entries)"
proof -
  from len obtain es e where split: "entries = es @ [e]"
    by (cases entries rule: rev_cases) auto
  obtain a r where e: "e = (a, r)" by (cases e)
  from d split e have d': "distinct (map (\<lambda>e. normalizeAddress (fst e)) es)"
    and fresh: "normalizeAddress a \<notin> set (map (\<lambda>e. normalizeAddress (fst e)) es)"
    by auto
  from len split have len': "length es = maxSize gc" by simp
  have full: "cache (set_all gc es) = normalized es"
    using set_all_below_capacity [OF empty d'] len' by simp
  from len' pos obtain x xs where es: "es = x # xs"
    by (cases es) auto
  obtain a0 r0 where x: "x = (a0, r0)" by (cases x)
  have nes: "normalized es = (normalizeAddress a0, r0) # normalized xs"
    using es x by (simp add: normalized_def)
  have "distinct (map fst (normalized es))"
    using d' map_fst_normalized [of es] by simp
  then have del: "AList.delete (normalizeAddress a0) (normalized es) = normalized xs"
    unfolding nes by (rule delete_first_distinct)
  have "normalizeAddress a \<notin> fst ` set (normalized xs)"
    using fresh es by (simp only: keys_normalized) simp
  then have upd: "AList.update (normalizeAddress a) r (normalized xs) = normalized xs @ [(normalizeAddress a, r)]"
    by (rule update_fresh)
  have "length (normalized es) = maxSize (set_all gc es)"
    using len' by (simp add: normalized_def maxSize_set_all)
  then have "cache (cache_set (set_all gc es) a r) = normalized xs @ [(normalizeAddress a, r)]"
    using del upd nes full by (simp add: cache_set_def)
  then have "cache (set_all gc entries) = normalized xs @ [(normalizeAddress a, r)]"
    unfolding split e set_all_snoc .
  moreover have "tl (normalized entries) = normalized xs @ [(normalizeAddress a, r)]"
    unfolding split e es x by (simp add: normalized_def)
  ultimately show ?thesis by simp
qed

lemma get_after_set: "cache_get (cache_set gc a r) a = Some r"
  by (simp add: cache_get_def cache_set_def Let_def AList.update_conv')

lemma collapseWhitespace_plain:
  "\<not> isWhiteSpace c \<Longrightarrow> collapseWhitespace (replicate n c) = replicate n c"
  by (induction n) simp_all

lemma normalizeAddress_letters:
  "normalizeAddress (replicate n CHR ''a'') = replicate n CHR ''a''"
proof -
  have low: "toLowerChar CHR ''a'' = CHR ''a''" by code_simp
  have nws: "\<not> isWhiteSpace CHR ''a''" by code_simp
  have "dropWhile isWhiteSpace (replicate n CHR ''a'') = replicate n CHR ''a''"
    using nws by (cases n) simp_all
  then have "trim (replicate n CHR ''a'') = replicate n CHR ''a''"
    by (simp add: trim_def)
  then show ?thesis
    using low nws by (simp add: normalizeAddress_def toLowerCase_def collapseWhitespace_plain)
qed

lemma normalized_letters:
  "normalized (map (\<lambda>n. (replicate n CHR ''a'', r)) ns) = map (\<lambda>n. (replicate n CHR ''a'', r)) ns"
  by (induction ns) (simp_all add: normalized_def normalizeAddress_letters)

lemma distinct_letter_keys:
  "distinct ns \<Longrightarrow>
   distinct (map (\<lambda>e. normalizeAddress (fst e)) (map (\<lambda>n. (replicate n CHR ''a'', r)) ns))"
proof -
  assume d: "distinct ns"
  have "inj_on (\<lambda>n. replicate n CHR ''a'') (set ns)"
    by (rule inj_onI) (metis length_replicate)
  with d have "distinct (map (\<lambda>n. replicate n CHR ''a'') ns)"
    by (simp add: distinct_map)
  then show ?thesis
    by (simp add: comp_def normalizeAddress_letters)
qed

text \<open>
  C5. Two addresses with the same normalised form (lower case, trimmed, runs of white
  space collapsed to one space) are the same key for \<^verbatim>\<open>get\<close>, \<^verbatim>\<open>has\<close> and
  \<^verbatim>\<open>set\<close>, and what one stores the other reads; the two sample addresses both
  normalise to \<^verbatim>\<open>test address\<close>. Inserting capacity + 1 entries with distinct
  normalised keys into an empty cache of any capacity above 0 leaves all of them but the
  first, in insertion order: exactly the first-inserted key is evicted. Reading does not
  change the cache, so the order is that of insertion, not of access.
\<close>

theorem cache_normalized_keys_fifo:
  "(normalizeAddress a = normalizeAddress b \<longrightarrow>
      cache_get gc a = cache_get gc b \<and> cache_has gc a = cache_has gc b \<and>
      cache_set gc a r = cache_set gc b r \<and>
      cache_get (cache_set gc a r) b = Some r) \<and>
   normalizeAddress ''  Test   Address  '' = ''test address'' \<and>
   normalizeAddress ''TEST ADDRESS'' = ''test address'' \<and>
   (cache gc = [] \<and> 0 < maxSize gc \<and>
    distinct (map (\<lambda>e. normalizeAddress (fst e)) entries) \<and> length entries = maxSize gc + 1 \<longrightarrow>
      cache (set_all gc entries) = tl (normalized entries)) \<and>
   cache_step gc (Get a) = gc \<and> cache_step gc (Has a) = gc"
proof (intro conjI impI)
  assume eq: "normalizeAddress a = normalizeAddress b"
  show "cache_get gc a = cache_get gc b"
    by (simp add: cache_get_def eq)
  show "cache_has gc a = cache_has gc b"
    by (simp add: cache_has_def eq)
  show "cache_set gc a r = cache_set gc b r"
    by (simp add: cache_set_def eq)
  show "cache_get (cache_set gc a r) b = Some r"
    using get_after_set [of gc a r] by (simp add: cache_get_def eq)
next
  show "normalizeAddress ''  Test   Address  '' = ''test address''"
    by code_simp
  show "normalizeAddress ''TEST ADDRESS'' = ''test address''"
    by code_simp
  show "cache_step gc (Get a) = gc" "cache_step gc (Has a) = gc"
    by simp_all
next
  assume "cache gc = [] \<and> 0 < maxSize gc \<and>
    distinct (map (\<lambda>e. normalizeAddress (fst e)) entries) \<and> length entries = maxSize gc + 1"
  then show "cache (set_all gc entries) = tl (normalized entries)"
    using set_all_overflow by blast
qed

text \<open>
  The instance: the two sample addresses; 1001 addresses \<^verbatim>\<open>a\<close>, \<^verbatim>\<open>aa\<close>, ... set in the
  cache of capacity 1000; and three addresses set in a cache of capacity 2.
\<close>

theorem cache_normalized_keys_fifo_witness:
  "cache_get (cache_set newGeocodingCache ''  Test   Address  '' sample_result) ''TEST ADDRESS''
     = Some sample_result \<and>
   distinct (map (\<lambda>e. normalizeAddress (fst e)) sample_entries) \<and>
   length sample_entries = maxSize newGeocodingCache + 1 \<and>
   cache (set_all newGeocodingCache sample_entries) = tl sample_entries \<and>
   map fst (cache (set_all (newGeocodingCache\<lparr>maxSize := 2\<rparr>) three_entries))
     = [''address 2'', ''address 3'']"
proof -
  note inst = cache_normalized_keys_fifo
    [of "''  Test   Address  ''" "''TEST ADDRESS''" newGeocodingCache sample_result sample_entries]
  note small = cache_normalized_keys_fifo
    [of "''  Test   Address  ''" "''TEST ADDRESS''" "newGeocodingCache\<lparr>maxSize := 2\<rparr>"
        sample_result three_entries]
  have len: "length sample_entries = maxSize newGeocodingCache + 1"
    by (simp add: sample_entries_def newGeocodingCache_def del: upt_rec_numeral)
  have dist: "distinct (map (\<lambda>e. normalizeAddress (fst e)) sample_entries)"
    unfolding sample_entries_def by (rule distinct_letter_keys) (rule distinct_upt)
  have norm: "normalized sample_entries = sample_entries"
    unfolding sample_entries_def by (rule normalized_letters)
  have new: "cache newGeocodingCache = [] \<and> 0 < maxSize newGeocodingCache"
    by (simp add: newGeocodingCache_def)
  have eq: "normalizeAddress ''  Test   Address  '' = normalizeAddress ''TEST ADDRESS''"
    by code_simp
  from inst new dist len have "cache (set_all newGeocodingCache sample_entries) = tl (normalized sample_entries)"
    by blast
  moreover from inst eq
  have "cache_get (cache_set newGeocodingCache ''  Test   Address  '' sample_result) ''TEST ADDRESS''
      = Some sample_result"
    by blast
  moreover have "map fst (cache (set_all (newGeocodingCache\<lparr>maxSize := 2\<rparr>) three_entries))
      = [''address 2'', ''address 3'']"
  proof -
    have keys: "map (\<lambda>e. normalizeAddress (fst e)) three_entries = [''address 1'', ''address 2'', ''address 3'']"
      by code_simp
    then have "distinct (map (\<lambda>e. normalizeAddress (fst e)) three_entries)"
      by simp
    moreover have "cache (newGeocodingCache\<lparr>maxSize := 2\<rparr>) = [] \<and> 0 < maxSize (newGeocodingCache\<lparr>maxSize := 2\<rparr>)"
      by (simp add: newGeocodingCache_def)
    moreover have "length three_entries = maxSize (newGeocodingCache\<lparr>maxSize := 2\<rparr>) + 1"
      by (simp add: three_entries_def)
    ultimately have "cache (set_all (newGeocodingCache\<lparr>maxSize := 2\<rparr>) three_entries) = tl (normalized three_entries)"
      using small by blast
    moreover have "map fst (tl (normalized three_entries)) = tl (map (\<lambda>e. normalizeAddress (fst e)) three_entries)"
      by (simp add: map_tl map_fst_normalized)
    ultimately show ?thesis
      using keys by simp
  qed
  ultimately show ?thesis
    using len dist norm by simp
qed

section \<open>The record parser: cost texts and the school type default\<close>
















text \<open>
  C9. The cost parser maps \<^verbatim>\<open>Free (voluntary contributions expected)\<close> to a free cost
  with amount 0, and the text of a pound sign followed by \<^verbatim>\<open>25,000 (inc. VAT)\<close> to a
  cost that is not free, with amount 25000 (the thousands separator removed) and the VAT
  marker set.
\<close>

theorem parseCost_examples:
  "isFree (parseCost freeCostText) \<and> amount (parseCost freeCostText) = Some 0 \<and>
   \<not> isFree (parseCost feeCostText) \<and> amount (parseCost feeCostText) = Some 25000 \<and>
   includesVAT (parseCost feeCostText) = Some True"
proof -
  have "parseCost freeCostText =
      \<lparr>amount = Some 0, currency = ''GBP'', period = ''year'', isFree = True,
       voluntaryContribution = None, includesVAT = Some False\<rparr>"
    by code_simp
  moreover have "parseCost feeCostText =
      \<lparr>amount = Some 25000, currency = ''GBP'', period = ''year'', isFree = False,
       voluntaryContribution = None, includesVAT = Some True\<rparr>"
    by code_simp
  ultimately show ?thesis by simp
qed



section \<open>The geocoding client: confidence and error classification\<close>

text \<open>
  C1 (as amended). The confidence of a candidate is the minimum of 1 and the sum of the
  base 0.5, 0.3 if the candidate's class and type are \<^verbatim>\<open>amenity\<close> and \<^verbatim>\<open>school\<close>, the
  importance times 0.2, and the address tier: 0.2 for \<^verbatim>\<open>amenity\<close>, 0.1 for \<^verbatim>\<open>house\<close>,
  nothing otherwise (so at most 0.3, amenity above house). The score never exceeds 1.
  There is no lower clamp: the score is at least 0 when the importance is at least -2.5,
  in particular when it is not negative.
\<close>

theorem calculateConfidence_formula:
  "calculateConfidence r =
     min 1 (0.5 + (if resultClass r = Some ''amenity'' \<and> resultType r = Some ''school'' then 0.3 else 0)
              + importanceValue r * 0.2
              + (if addresstype r = Some ''amenity'' then 0.2
                 else if addresstype r = Some ''house'' then 0.1 else 0)) \<and>
   calculateConfidence r \<le> 1 \<and>
   (- 2.5 \<le> importanceValue r \<longrightarrow> 0 \<le> calculateConfidence r)"
  by (auto simp: calculateConfidence_def importanceValue_def Let_def min_def split: option.splits)

text \<open>The instance: a school amenity of importance 0.4, whose sum 1.2 is capped at 1.\<close>

theorem calculateConfidence_formula_witness:
  "- 2.5 \<le> importanceValue schoolCandidate \<and> calculateConfidence schoolCandidate = 1 \<and>
   0 \<le> calculateConfidence schoolCandidate"
proof -
  have imp: "- 2.5 \<le> importanceValue schoolCandidate"
    by (simp add: importanceValue_def schoolCandidate_def)
  have "calculateConfidence schoolCandidate = 1"
    using calculateConfidence_formula [of schoolCandidate]
    by (simp add: importanceValue_def schoolCandidate_def)
  moreover have "0 \<le> calculateConfidence schoolCandidate"
    using calculateConfidence_formula [of schoolCandidate] imp by blast
  ultimately show ?thesis using imp by simp
qed

text \<open>
  C1 as stated fails: a candidate of importance -3 that is no school gets the confidence
  0.5 - 0.6, which is below 0 and so outside the interval from 0 to 1.
\<close>

theorem calculateConfidence_not_clamped_below:
  "calculateConfidence negativeCandidate = - (1 / 10) \<and> \<not> 0 \<le> calculateConfidence negativeCandidate"
  by (simp add: calculateConfidence_def negativeCandidate_def)








section \<open>The validation engine: coordinate repair and the batch summary\<close>

lemma validateCoordinates_valid:
  "hasValidCoordinates s \<Longrightarrow> validateCoordinates geocode s = ([], None)"
  by (simp add: validateCoordinates_def)

lemma validateCoordinates_failure:
  "\<not> hasValidCoordinates s \<Longrightarrow> address s \<noteq> [] \<Longrightarrow> geocode (address s) = Inl e \<Longrightarrow>
   validateCoordinates geocode s =
     ([\<lparr>field = ''coordinates'', severity = Error,
        message = ''Geocoding failed: '' @ GeocodingError.message e\<rparr>], None)"
  by (simp add: validateCoordinates_def)

lemma validateCoordinates_no_address:
  "\<not> hasValidCoordinates s \<Longrightarrow> address s = [] \<Longrightarrow>
   validateCoordinates geocode s =
     ([\<lparr>field = ''coordinates'', severity = Error,
        message = ''Invalid coordinates and no address provided for geocoding''\<rparr>], None)"
  by (simp add: validateCoordinates_def)

lemma validateSchool_frame:
  "ValidationResult.school (validateSchool validUrl geocode s) = s\<lparr>coordinates := coordinates (ValidationResult.school (validateSchool validUrl geocode s))\<rparr>"
  by (simp add: validateSchool_def Let_def split: prod.splits option.splits)

text \<open>
  C4. Validating a record changes nothing of it but, possibly, its coordinates, and it
  leaves a record with valid coordinates as it is: the coordinates are overwritten only
  when they are absent or fail the range test. When they are invalid and the geocoder
  rejects the address, the record is unchanged, the last issue (after those of the field
  checks) is an error on the coordinates that reports the geocoding failure with the
  geocoder's message, the record is not valid and no geocoding result is returned. When
  they are invalid and the address is empty, the record is unchanged as well and the
  error says that there is no address to geocode.
\<close>

theorem validateSchool_coordinates:
  "(hasValidCoordinates s \<longrightarrow> ValidationResult.school (validateSchool validUrl geocode s) = s) \<and>
   ValidationResult.school (validateSchool validUrl geocode s) =
     s\<lparr>coordinates := coordinates (ValidationResult.school (validateSchool validUrl geocode s))\<rparr> \<and>
   (\<not> hasValidCoordinates s \<and> address s \<noteq> [] \<and> geocode (address s) = Inl e \<longrightarrow>
      ValidationResult.school (validateSchool validUrl geocode s) = s \<and>
      ValidationResult.issues (validateSchool validUrl geocode s) =
        validateRequiredFields s @ validateFieldFormats validUrl s @
        [\<lparr>field = ''coordinates'', severity = Error,
          message = ''Geocoding failed: '' @ GeocodingError.message e\<rparr>] \<and>
      \<not> isValid (validateSchool validUrl geocode s) \<and>
      geocodingResult (validateSchool validUrl geocode s) = None) \<and>
   (\<not> hasValidCoordinates s \<and> address s = [] \<longrightarrow>
      ValidationResult.school (validateSchool validUrl geocode s) = s \<and>
      ValidationResult.issues (validateSchool validUrl geocode s) =
        validateRequiredFields s @ validateFieldFormats validUrl s @
        [\<lparr>field = ''coordinates'', severity = Error,
          message = ''Invalid coordinates and no address provided for geocoding''\<rparr>] \<and>
      \<not> isValid (validateSchool validUrl geocode s))"
proof (intro conjI impI)
  assume "hasValidCoordinates s"
  then show "ValidationResult.school (validateSchool validUrl geocode s) = s"
    by (simp add: validateSchool_def validateCoordinates_valid)
next
  show "ValidationResult.school (validateSchool validUrl geocode s) =
     s\<lparr>coordinates := coordinates (ValidationResult.school (validateSchool validUrl geocode s))\<rparr>"
    by (rule validateSchool_frame)
next
  assume h: "\<not> hasValidCoordinates s \<and> address s \<noteq> [] \<and> geocode (address s) = Inl e"
  then have vc: "validateCoordinates geocode s =
     ([\<lparr>field = ''coordinates'', severity = Error,
        message = ''Geocoding failed: '' @ GeocodingError.message e\<rparr>], None)"
    by (simp add: validateCoordinates_failure)
  show "ValidationResult.school (validateSchool validUrl geocode s) = s"
    by (simp add: validateSchool_def vc)
  show "ValidationResult.issues (validateSchool validUrl geocode s) =
        validateRequiredFields s @ validateFieldFormats validUrl s @
        [\<lparr>field = ''coordinates'', severity = Error,
          message = ''Geocoding failed: '' @ GeocodingError.message e\<rparr>]"
    by (simp add: validateSchool_def vc)
  show "\<not> isValid (validateSchool validUrl geocode s)"
    by (simp add: validateSchool_def vc)
  show "geocodingResult (validateSchool validUrl geocode s) = None"
    by (simp add: validateSchool_def vc)
next
  assume h: "\<not> hasValidCoordinates s \<and> address s = []"
  then have vc: "validateCoordinates geocode s =
     ([\<lparr>field = ''coordinates'', severity = Error,
        message = ''Invalid coordinates and no address provided for geocoding''\<rparr>], None)"
    by (simp add: validateCoordinates_no_address)
  show "ValidationResult.school (validateSchool validUrl geocode s) = s"
    by (simp add: validateSchool_def vc)
  show "ValidationResult.issues (validateSchool validUrl geocode s) =
        validateRequiredFields s @ validateFieldFormats validUrl s @
        [\<lparr>field = ''coordinates'', severity = Error,
          message = ''Invalid coordinates and no address provided for geocoding''\<rparr>]"
    by (simp add: validateSchool_def vc)
  show "\<not> isValid (validateSchool validUrl geocode s)"
    by (simp add: validateSchool_def vc)
qed

text \<open>
  The instance: the sample record, whose coordinates are not numbers, with a geocoder that
  finds nothing; the same record with coordinates in range; and the same record without
  an address.
\<close>

theorem validateSchool_coordinates_witness:
  "\<not> hasValidCoordinates sampleSchool \<and>
   ValidationResult.school (validateSchool (\<lambda>w. True) (\<lambda>a. Inl noResultsError) sampleSchool) = sampleSchool \<and>
   ValidationResult.issues (validateSchool (\<lambda>w. True) (\<lambda>a. Inl noResultsError) sampleSchool) =
     [\<lparr>field = ''coordinates'', severity = Error, message = ''Geocoding failed: No results found''\<rparr>] \<and>
   \<not> isValid (validateSchool (\<lambda>w. True) (\<lambda>a. Inl noResultsError) sampleSchool) \<and>
   hasValidCoordinates (sampleSchool\<lparr>coordinates := Some \<lparr>lat = Some 51.5, lng = Some (- 0.1)\<rparr>\<rparr>) \<and>
   ValidationResult.school (validateSchool (\<lambda>w. True) (\<lambda>a. Inl noResultsError)
             (sampleSchool\<lparr>coordinates := Some \<lparr>lat = Some 51.5, lng = Some (- 0.1)\<rparr>\<rparr>)) =
     sampleSchool\<lparr>coordinates := Some \<lparr>lat = Some 51.5, lng = Some (- 0.1)\<rparr>\<rparr> \<and>
   ValidationResult.school (validateSchool (\<lambda>w. True) (\<lambda>a. Inl noResultsError) (sampleSchool\<lparr>address := []\<rparr>))
     = sampleSchool\<lparr>address := []\<rparr> \<and>
   \<not> isValid (validateSchool (\<lambda>w. True) (\<lambda>a. Inl noResultsError) (sampleSchool\<lparr>address := []\<rparr>))"
proof -
  let ?v = "\<lambda>w::string. True" and ?g = "\<lambda>a::string. Inl noResultsError :: GeocodingError + GeocodingResult"
  let ?good = "sampleSchool\<lparr>coordinates := Some \<lparr>lat = Some 51.5, lng = Some (- 0.1)\<rparr>\<rparr>"
  note bad = validateSchool_coordinates [where s = sampleSchool and validUrl = ?v and geocode = ?g and e = noResultsError]
  note good = validateSchool_coordinates [where s = ?good and validUrl = ?v and geocode = ?g and e = noResultsError]
  note blank = validateSchool_coordinates [where s = "sampleSchool\<lparr>address := []\<rparr>" and validUrl = ?v
      and geocode = ?g and e = noResultsError]
  have inv': "\<not> hasValidCoordinates (sampleSchool\<lparr>address := []\<rparr>) \<and> address (sampleSchool\<lparr>address := []\<rparr>) = []"
    by (simp add: hasValidCoordinates_def sampleSchool_def isValidCoordinates_def)
  from blank inv' have noaddr:
    "ValidationResult.school (validateSchool ?v ?g (sampleSchool\<lparr>address := []\<rparr>)) = sampleSchool\<lparr>address := []\<rparr>"
    "\<not> isValid (validateSchool ?v ?g (sampleSchool\<lparr>address := []\<rparr>))"
    by blast+
  have inv: "\<not> hasValidCoordinates sampleSchool"
    by (simp add: hasValidCoordinates_def sampleSchool_def isValidCoordinates_def)
  have addr: "address sampleSchool \<noteq> []"
    by (simp add: sampleSchool_def)
  have req: "validateRequiredFields sampleSchool = []"
    by (simp add: validateRequiredFields_def sampleSchool_def)
  have fmt: "validateFieldFormats ?v sampleSchool = []"
    by (simp add: validateFieldFormats_def sampleSchool_def schoolColors_def num_lt_def num_gt_def trim_def isWhiteSpace_def)
  have ok: "hasValidCoordinates ?good"
    by (simp add: hasValidCoordinates_def isValidCoordinates_def)
  from bad inv addr have
    "ValidationResult.school (validateSchool ?v ?g sampleSchool) = sampleSchool"
    "ValidationResult.issues (validateSchool ?v ?g sampleSchool) =
       validateRequiredFields sampleSchool @ validateFieldFormats ?v sampleSchool @
       [\<lparr>field = ''coordinates'', severity = Error,
         message = ''Geocoding failed: '' @ GeocodingError.message noResultsError\<rparr>]"
    "\<not> isValid (validateSchool ?v ?g sampleSchool)"
    by simp_all
  moreover from good ok have "ValidationResult.school (validateSchool ?v ?g ?good) = ?good"
    by blast
  ultimately show ?thesis
    using inv ok req fmt noaddr by (simp add: noResultsError_def)
qed

lemma enumerate_shift:
  "map (\<lambda>(j, s). f (i + j) s) (enumerate 0 xs) = map (\<lambda>(k, s). f k s) (enumerate i xs)"
proof -
  have "map (\<lambda>(j, s). f (i + j) s) (enumerate n xs) = map (\<lambda>(k, s). f k s) (enumerate (i + n) xs)" for n
    by (induction xs arbitrary: n) simp_all
  from this [of 0] show ?thesis by simp
qed

lemma enumerate_batch:
  "enumerate i (drop i xs) =
     enumerate i (take b (drop i xs)) @ enumerate (i + b) (drop (i + b) xs)"
proof (cases "b \<le> length (drop i xs)")
  case True
  have "enumerate i (drop i xs) = enumerate i (take b (drop i xs) @ drop b (drop i xs))"
    by (simp only: append_take_drop_id)
  also have "\<dots> =
      enumerate i (take b (drop i xs)) @ enumerate (i + length (take b (drop i xs))) (drop b (drop i xs))"
    by (rule enumerate_append_eq)
  also have "length (take b (drop i xs)) = b"
    using True by simp
  also have "drop b (drop i xs) = drop (i + b) xs"
    by (simp add: add.commute)
  finally show ?thesis .
next
  case False
  then have "take b (drop i xs) = drop i xs" "drop (i + b) xs = []"
    by simp_all
  then show ?thesis by simp
qed

declare validateBatches.simps [simp del]

lemma validateBatches_results:
  "validateBatches validUrl geocode xs i (rs, is, n) =
     (rs @ map (validateAt validUrl geocode) (enumerate i (drop i xs)),
      is @ concat (map ValidationResult.issues (map (validateAt validUrl geocode) (enumerate i (drop i xs)))),
      n + int (length (filter countsAsGeocodingError (map (validateAt validUrl geocode) (enumerate i (drop i xs))))))"
proof (induction validUrl geocode xs i "(rs, is, n)" arbitrary: rs "is" n rule: validateBatches.induct)
  case (1 validUrl geocode xs i rs "is" n)
  show ?case
  proof (cases "i < length xs")
    case False
    then show ?thesis
      by (subst validateBatches.simps) simp
  next
    case True
    let ?batch = "take batchSize (drop i xs)"
    let ?br = "map (\<lambda>(j, s). validateSchool validUrl (geocode (i + j)) s) (enumerate 0 ?batch)"
    let ?rest = "map (validateAt validUrl geocode) (enumerate (i + batchSize) (drop (i + batchSize) xs))"
    have br: "?br = map (validateAt validUrl geocode) (enumerate i ?batch)"
      unfolding validateAt_def by (rule enumerate_shift)
    have split: "map (validateAt validUrl geocode) (enumerate i (drop i xs)) = ?br @ ?rest"
      by (subst enumerate_batch [of i xs batchSize]) (simp add: br)
    have "validateBatches validUrl geocode xs i (rs, is, n) =
        validateBatches validUrl geocode xs (i + batchSize)
          (rs @ ?br, is @ concat (map ValidationResult.issues ?br),
           n + int (length (filter countsAsGeocodingError ?br)))"
      using True by (subst validateBatches.simps) (simp add: Let_def)
    also have "\<dots> =
        ((rs @ ?br) @ ?rest,
         (is @ concat (map ValidationResult.issues ?br)) @ concat (map ValidationResult.issues ?rest),
         (n + int (length (filter countsAsGeocodingError ?br))) + int (length (filter countsAsGeocodingError ?rest)))"
      using True by (intro "1.hyps") auto
    finally show ?thesis
      unfolding split by simp
  qed
qed

lemma validationResults_eq:
  "validationResults (validateSchoolData validUrl geocode xs) =
     map (validateAt validUrl geocode) (enumerate 0 xs)"
  by (simp add: validateSchoolData_def validateBatches_results Let_def)

text \<open>
  C7. For a list of any length N, the loop over the batches ends, and the summary has
  N as its total, valid and invalid counts that add up to the total, and one result for
  every record, in order: the result of validating that record, whatever the geocoder
  did for it or for the others. The valid count is the number of valid results and the
  invalid count the number of results that are not valid.
\<close>

theorem validateSchoolData_counts:
  "totalSchools (validateSchoolData validUrl geocode xs) = int (length xs) \<and>
   validSchools (validateSchoolData validUrl geocode xs)
     + invalidSchools (validateSchoolData validUrl geocode xs)
     = totalSchools (validateSchoolData validUrl geocode xs) \<and>
   validationResults (validateSchoolData validUrl geocode xs) =
     map (\<lambda>(k, s). validateSchool validUrl (geocode k) s) (enumerate 0 xs) \<and>
   length (validationResults (validateSchoolData validUrl geocode xs)) = length xs \<and>
   validSchools (validateSchoolData validUrl geocode xs) =
     int (length (filter isValid (validationResults (validateSchoolData validUrl geocode xs)))) \<and>
   invalidSchools (validateSchoolData validUrl geocode xs) =
     int (length (filter (\<lambda>r. \<not> isValid r) (validationResults (validateSchoolData validUrl geocode xs))))"
proof -
  let ?sum = "validateSchoolData validUrl geocode xs"
  have res: "validationResults ?sum = map (validateAt validUrl geocode) (enumerate 0 xs)"
    by (rule validationResults_eq)
  then have len: "length (validationResults ?sum) = length xs"
    by simp
  have total: "totalSchools ?sum = int (length xs)"
    by (simp add: validateSchoolData_def Let_def split: prod.splits)
  have valid: "validSchools ?sum = int (length (filter isValid (validationResults ?sum)))"
    by (simp add: validateSchoolData_def Let_def split: prod.splits)
  have invalid: "invalidSchools ?sum = int (length xs) - validSchools ?sum"
    by (simp add: validateSchoolData_def Let_def split: prod.splits)
  have "length (filter isValid (validationResults ?sum))
      + length (filter (\<lambda>r. \<not> isValid r) (validationResults ?sum)) = length xs"
    using sum_length_filter_compl [of isValid "validationResults ?sum"] len by simp
  then have inv2: "invalidSchools ?sum = int (length (filter (\<lambda>r. \<not> isValid r) (validationResults ?sum)))"
    using invalid valid by linarith
  from res total valid invalid inv2 len show ?thesis
    by (simp add: validateAt_def)
qed

text \<open>
  The instance: twelve records, in two batches, with a geocoder that fails for every
  second one.
\<close>

theorem validateSchoolData_counts_witness:
  "totalSchools (validateSchoolData (\<lambda>w. True) failingGeocode (replicate 12 sampleSchool)) = 12 \<and>
   validSchools (validateSchoolData (\<lambda>w. True) failingGeocode (replicate 12 sampleSchool)) = 6 \<and>
   invalidSchools (validateSchoolData (\<lambda>w. True) failingGeocode (replicate 12 sampleSchool)) = 6 \<and>
   length (validationResults (validateSchoolData (\<lambda>w. True) failingGeocode (replicate 12 sampleSchool))) = 12"
proof -
  let ?sum = "validateSchoolData (\<lambda>w. True) failingGeocode (replicate 12 sampleSchool)"
  note inst = validateSchoolData_counts [of "\<lambda>w. True" failingGeocode "replicate 12 sampleSchool"]
  have valid: "validSchools ?sum = 6"
    by code_simp
  from inst have total: "totalSchools ?sum = 12"
    by simp
  from inst have len: "length (validationResults ?sum) = 12"
    by simp
  from inst have "validSchools ?sum + invalidSchools ?sum = totalSchools ?sum"
    by blast
  with valid total have "invalidSchools ?sum = 6"
    by simp
  with valid total len show ?thesis by simp
qed

section \<open>The query engine: ranking filter and search\<close>

subsection \<open>Filtering\<close>




subsection \<open>Searching\<close>








subsection \<open>The memoized functions\<close>











text \<open>
  The guard of \<^verbatim>\<open>optimizedSchoolFilter\<close> treats the full range from 1 to 1000 as no
  ranking filter: it is not active, and unranked records stay.
\<close>

lemma schoolFilter_full_range_inactive:
  "\<not> rankingActive (rankingOnly (Some 1) (Some 1000)) \<and>
   schoolFilter [unrankedSchool, rankedSchool] (rankingOnly (Some 1) (Some 1000))
     = [unrankedSchool, rankedSchool]"
  by (simp add: rankingActive_def rankingOnly_def num_gt_def num_lt_def schoolFilter_def)



end
